theory Spec2Isabelle
  imports Complex_Main "HOL-Library.Sublist"
begin

section \<open>Python strings\<close>

text \<open>
  A Python \<open>str\<close> is modelled as a \<open>string\<close>: a list of 8-bit characters, read as the
  code points U+0000 to U+00FF. \<open>len\<close> is \<open>length\<close>, slicing \<open>s[:n]\<close> is \<open>take n s\<close>,
  \<open>+\<close> and the pieces of an f-string are \<open>@\<close>. The two built-in methods the bot calls,
  \<open>str.lower\<close> and \<open>str.strip\<close>, are Python's restricted to that range.
\<close>

definition lower_char :: "char \<Rightarrow> char" where
  \<comment> \<open>A to Z, and the Latin-1 capitals U+00C0 to U+00DE without the sign U+00D7, move by 32\<close>
  "lower_char c =
     (let n = (of_char c :: nat)
      in if (65 \<le> n \<and> n \<le> 90) \<or> (192 \<le> n \<and> n \<le> 222 \<and> n \<noteq> 215)
         then char_of (n + 32) else c)"

definition lower :: "string \<Rightarrow> string" where
  "lower s = map lower_char s"

definition isspace :: "char \<Rightarrow> bool" where
  \<comment> \<open>the characters \<open>str.isspace\<close> accepts below U+0100\<close>
  "isspace c =
     (let n = (of_char c :: nat)
      in (9 \<le> n \<and> n \<le> 13) \<or> (28 \<le> n \<and> n \<le> 32) \<or> n = 133 \<or> n = 160)"

definition lstrip :: "string \<Rightarrow> string" where
  "lstrip s = dropWhile isspace s"

definition rstrip :: "string \<Rightarrow> string" where
  "rstrip s = rev (dropWhile isspace (rev s))"

definition strip :: "string \<Rightarrow> string" where
  "strip s = rstrip (lstrip s)"

section \<open>Decoded JSON and the operations the relay applies to it\<close>

text \<open>
  \<open>response.json()\<close> yields any JSON value, not only an object. An object is the list
  of the items of the decoded dict, read with \<open>map_of\<close>.
\<close>

datatype json =
    JNull
  | JBool bool
  | JInt int
  | JFloat real
  | JString string
  | JArray "json list"
  | JObject "(string \<times> json) list"

text \<open>
  The exceptions that can occur inside \<open>call_ollama_api\<close>, each with the text \<open>str(e)\<close>
  gives. \<open>RequestsJSONDecodeError\<close> is \<open>requests.exceptions.JSONDecodeError\<close>, which
  \<open>Response.json\<close> raises since requests 2.27 and which inherits from both
  \<open>RequestException\<close> and \<open>json.JSONDecodeError\<close>; \<open>JSONDecodeError\<close> is the plain
  \<open>json.JSONDecodeError\<close> of older releases. \<open>Timeout\<close> is
  \<open>requests.exceptions.Timeout\<close> with its subclasses, raised when the connection or
  the wait for the response times out; a timeout while the body is read is raised by
  requests as \<open>ConnectionError\<close>. \<open>OtherException\<close> is any other subclass of
  \<open>Exception\<close>.
\<close>

datatype exn =
    Timeout string
  | ConnectionError string
  | HTTPError string
  | OtherRequestException string
  | RequestsJSONDecodeError string
  | JSONDecodeError string
  | KeyError string
  | TypeError string
  | AttributeError string
  | UnboundLocalError string
  | OtherException string

fun str_exn :: "exn \<Rightarrow> string" where
  "str_exn (Timeout m) = m"
| "str_exn (ConnectionError m) = m"
| "str_exn (HTTPError m) = m"
| "str_exn (OtherRequestException m) = m"
| "str_exn (RequestsJSONDecodeError m) = m"
| "str_exn (JSONDecodeError m) = m"
| "str_exn (KeyError m) = m"
| "str_exn (TypeError m) = m"
| "str_exn (AttributeError m) = m"
| "str_exn (UnboundLocalError m) = m"
| "str_exn (OtherException m) = m"

text \<open>\<open>isinstance\<close> for the four classes the \<open>except\<close> clauses name.\<close>

fun is_Timeout :: "exn \<Rightarrow> bool" where
  "is_Timeout (Timeout _) = True"
| "is_Timeout _ = False"

fun is_RequestException :: "exn \<Rightarrow> bool" where
  "is_RequestException (Timeout _) = True"
| "is_RequestException (ConnectionError _) = True"
| "is_RequestException (HTTPError _) = True"
| "is_RequestException (OtherRequestException _) = True"
| "is_RequestException (RequestsJSONDecodeError _) = True"
| "is_RequestException _ = False"

fun is_JSONDecodeError :: "exn \<Rightarrow> bool" where
  "is_JSONDecodeError (RequestsJSONDecodeError _) = True"
| "is_JSONDecodeError (JSONDecodeError _) = True"
| "is_JSONDecodeError _ = False"

fun is_KeyError :: "exn \<Rightarrow> bool" where
  "is_KeyError (KeyError _) = True"
| "is_KeyError _ = False"

fun type_name :: "json \<Rightarrow> string" where
  "type_name JNull = ''NoneType''"
| "type_name (JBool _) = ''bool''"
| "type_name (JInt _) = ''int''"
| "type_name (JFloat _) = ''float''"
| "type_name (JString _) = ''str''"
| "type_name (JArray _) = ''list''"
| "type_name (JObject _) = ''dict''"

definition quoted :: "string \<Rightarrow> string" where
  "quoted s = [CHR 0x27] @ s @ [CHR 0x27]"

text \<open>
  \<open>k in d\<close> for a string \<open>k\<close>: key membership in a dict, element membership in a list,
  substring test in a string, and a \<open>TypeError\<close> on a number, a boolean or \<open>None\<close>.
  The texts of the interpreter's errors are those of CPython 3.12.
\<close>

fun py_contains :: "string \<Rightarrow> json \<Rightarrow> exn + bool" where
  "py_contains k (JObject kvs) = Inr (map_of kvs k \<noteq> None)"
| "py_contains k (JArray xs) = Inr (JString k \<in> set xs)"
| "py_contains k (JString s) = Inr (sublist k s)"
| "py_contains k d =
     Inl (TypeError (''argument of type '' @ quoted (type_name d) @ '' is not iterable''))"

text \<open>\<open>d[k]\<close> for a string \<open>k\<close>: only a dict can be read so, and a missing key raises.\<close>

fun py_getitem :: "json \<Rightarrow> string \<Rightarrow> exn + json" where
  "py_getitem (JObject kvs) k =
     (case map_of kvs k of None \<Rightarrow> Inl (KeyError (quoted k)) | Some v \<Rightarrow> Inr v)"
| "py_getitem (JArray xs) k =
     Inl (TypeError ''list indices must be integers or slices, not str'')"
| "py_getitem (JString s) k =
     Inl (TypeError (''string indices must be integers, not '' @ quoted ''str''))"
| "py_getitem d k =
     Inl (TypeError (quoted (type_name d) @ '' object is not subscriptable''))"

text \<open>\<open>v.strip()\<close>: only a string has the method.\<close>

fun py_strip :: "json \<Rightarrow> exn + string" where
  "py_strip (JString s) = Inr (strip s)"
| "py_strip v =
     Inl (AttributeError (quoted (type_name v) @ '' object has no attribute '' @ quoted ''strip''))"

definition bind :: "exn + 'a \<Rightarrow> ('a \<Rightarrow> exn + 'b) \<Rightarrow> exn + 'b" where
  "bind m f = (case m of Inl e \<Rightarrow> Inl e | Inr v \<Rightarrow> f v)"

section \<open>The preference store: \<open>user_languages\<close>\<close>

text \<open>
  \<open>user_languages\<close> is a module-level dict from user id (a Python int) to the stored
  instruction. Mutation is explicit: a command takes the dict and returns the new one.
\<close>

type_synonym user_languages = "int \<rightharpoonup> string"

definition user_languages_init :: user_languages where
  \<comment> \<open>line 36: \<open>user_languages = {}\<close>\<close>
  "user_languages_init = Map.empty"

definition get_language :: "user_languages \<Rightarrow> int \<Rightarrow> string" where
  \<comment> \<open>line 122: \<open>user_languages.get(user_id, "")\<close>\<close>
  "get_language ul user_id = (case ul user_id of None \<Rightarrow> [] | Some s \<Rightarrow> s)"

definition reset_keywords :: "string list" where
  \<comment> \<open>line 143\<close>
  "reset_keywords = [''default'', ''reset'', ''english'', ''en'', '''']"

datatype log_entry =
    LogPrompted string string
  | LogUnexpectedStructure json
  | LogTimeout string
  | LogRequestFailed string
  | LogDecodeFailed string
  | LogMissingKey string json
  | LogUnexpectedError exn
  | LogLanguageReset
  | LogLanguageSet string

text \<open>
  What a command leaves behind: the dict, the messages given to \<open>ctx.send\<close>, the log
  records, and the exception that left the handler, if one did.
\<close>

record command_result =
  languages :: user_languages
  sent :: "string list"
  logged :: "log_entry list"
  raised :: "exn option"

text \<open>
  The parameter of line 140 is keyword-only (\<open>*, language_name: str\<close>), which
  discord.py reads as the rest of the message with the surrounding whitespace removed.
  When nothing remains the library raises \<open>MissingRequiredArgument\<close>, which lines 107
  and 108 answer, and the handler is not called.
\<close>

definition consume_rest :: "string \<Rightarrow> string option" where
  "consume_rest rest = (if strip rest = [] then None else Some (strip rest))"

definition set_language :: "user_languages \<Rightarrow> int \<Rightarrow> string \<Rightarrow> command_result" where
  \<comment> \<open>lines 139 to 153\<close>
  "set_language ul user_id language_name =
     (if lower language_name \<in> set reset_keywords
      then \<lparr>languages = (if user_id \<in> dom ul then ul(user_id := None) else ul),
            sent = [''Okay, I'll use the default language (English) for your prompts.''],
            logged = [LogLanguageReset], raised = None\<rparr>
      else \<lparr>languages = ul(user_id \<mapsto> ''Answer me in '' @ language_name @ ''.''),
            sent = [''Okay, I will write my answers in '' @ language_name @ '' for your future prompts.''],
            logged = [LogLanguageSet language_name], raised = None\<rparr>)"

section \<open>The relay: \<open>call_ollama_api\<close>\<close>

record config =
  api_url :: string
  ollama_model :: string

text \<open>The request handed to \<open>requests.post\<close> (lines 46 to 58).\<close>

record request =
  req_url :: string
  req_model :: string
  req_content :: string
  req_stream :: bool
  req_timeout :: nat

text \<open>
  What the relay reads of a \<open>requests.Response\<close>: the status, \<open>response.text\<close>, the
  text \<open>raise_for_status\<close> gives its \<open>HTTPError\<close>, and what \<open>response.json()\<close> does,
  which is to return the decoded body or to raise.
\<close>

record response =
  status_code :: nat
  body_text :: string
  http_error_msg :: string
  json_result :: "exn + json"

datatype post_outcome = PostRaises exn | PostReturns response

text \<open>
  \<open>requests.post\<close> is a function from the request to its outcome. \<open>always\<close> is the
  backend whose outcome does not depend on the request.
\<close>

definition always :: "post_outcome \<Rightarrow> request \<Rightarrow> post_outcome" where
  [simp]: "always outcome rq = outcome"

definition raise_for_status :: "response \<Rightarrow> exn + unit" where
  \<comment> \<open>line 60; requests raises for the statuses 400 to 599\<close>
  "raise_for_status r =
     (if 400 \<le> status_code r \<and> status_code r < 600
      then Inl (HTTPError (http_error_msg r)) else Inr ())"

definition timeout_msg :: string where
  "timeout_msg = ''Error: The request to the AI timed out.''"

definition could_not_connect_msg :: "string \<Rightarrow> string \<Rightarrow> string" where
  "could_not_connect_msg url detail =
     ''Error: Could not connect to the AI service at '' @ url @ ''. Details: '' @ detail"

definition invalid_response_msg :: string where
  "invalid_response_msg = ''Error: Received an invalid response from the AI.''"

definition incomplete_format_msg :: string where
  "incomplete_format_msg = ''Error: Received an incomplete response format from the AI.''"

definition unexpected_format_msg :: string where
  "unexpected_format_msg = ''Error: Received an unexpected response format from the AI.''"

definition unexpected_error_msg :: "string \<Rightarrow> string" where
  "unexpected_error_msg detail =
     ''An unexpected error occurred while contacting the AI. Details: '' @ detail"

text \<open>
  Lines 66 to 73 on the decoded body \<open>d\<close>. The \<open>and\<close> of line 66 reads
  \<open>d['message']\<close> only when \<open>'message' in d\<close> holds.
\<close>

definition has_message_content :: "json \<Rightarrow> exn + bool" where
  "has_message_content d =
     bind (py_contains ''message'' d) (\<lambda>b.
       if b then bind (py_getitem d ''message'') (py_contains ''content'') else Inr False)"

definition extract_content :: "json \<Rightarrow> (exn + string) \<times> log_entry list" where
  "extract_content d =
     (case has_message_content d of
        Inl e \<Rightarrow> (Inl e, [])
      | Inr True \<Rightarrow>
          (bind (py_getitem d ''message'') (\<lambda>m. bind (py_getitem m ''content'') py_strip), [])
      | Inr False \<Rightarrow>
          (case py_contains ''response'' d of
             Inl e \<Rightarrow> (Inl e, [])
           | Inr True \<Rightarrow> (bind (py_getitem d ''response'') py_strip, [])
           | Inr False \<Rightarrow> (Inr unexpected_format_msg, [LogUnexpectedStructure d])))"

text \<open>
  The local variables the \<open>except\<close> clauses read. Each is bound only once its
  assignment in the \<open>try\<close> body has run.
\<close>

record locals =
  response :: "response option"
  response_data :: "json option"

definition ollama_request :: "config \<Rightarrow> string \<Rightarrow> request" where
  \<comment> \<open>lines 46 to 51 and the arguments of line 58\<close>
  "ollama_request cfg prompt =
     \<lparr>req_url = api_url cfg, req_model = ollama_model cfg, req_content = prompt,
      req_stream = False, req_timeout = 120\<rparr>"

definition try_body ::
  "config \<Rightarrow> (request \<Rightarrow> post_outcome) \<Rightarrow> string \<Rightarrow> (exn + string) \<times> locals \<times> log_entry list" where
  \<comment> \<open>lines 54 to 73\<close>
  "try_body cfg post prompt =
     (case post (ollama_request cfg prompt) of
        PostRaises e \<Rightarrow> (Inl e, \<lparr>response = None, response_data = None\<rparr>, [])
      | PostReturns r \<Rightarrow>
          (case raise_for_status r of
             Inl e \<Rightarrow> (Inl e, \<lparr>response = Some r, response_data = None\<rparr>, [])
           | Inr _ \<Rightarrow>
               (case json_result r of
                  Inl e \<Rightarrow> (Inl e, \<lparr>response = Some r, response_data = None\<rparr>, [])
                | Inr d \<Rightarrow>
                    (fst (extract_content d),
                     \<lparr>response = Some r, response_data = Some d\<rparr>,
                     snd (extract_content d)))))"

definition unbound_local :: "string \<Rightarrow> exn" where
  "unbound_local v = UnboundLocalError
     (''cannot access local variable '' @ quoted v @ '' where it is not associated with a value'')"

text \<open>
  The \<open>except\<close> clauses of lines 75 to 89, tried in the order they are written. A clause
  whose log line reads a local that is not bound raises in its turn, and that exception
  leaves the function.
\<close>

definition except_clauses :: "config \<Rightarrow> locals \<Rightarrow> exn \<Rightarrow> (exn + string) \<times> log_entry list" where
  "except_clauses cfg lv e =
     (if is_Timeout e then
        (Inr timeout_msg, [LogTimeout (api_url cfg)])
      else if is_RequestException e then
        (Inr (could_not_connect_msg (api_url cfg) (str_exn e)), [LogRequestFailed (str_exn e)])
      else if is_JSONDecodeError e then
        (case response lv of
           None \<Rightarrow> (Inl (unbound_local ''response''), [])
         | Some r \<Rightarrow> (Inr invalid_response_msg, [LogDecodeFailed (take 200 (body_text r))]))
      else if is_KeyError e then
        (case response_data lv of
           None \<Rightarrow> (Inl (unbound_local ''response_data''), [])
         | Some d \<Rightarrow> (Inr incomplete_format_msg, [LogMissingKey (str_exn e) d]))
      else
        (Inr (unexpected_error_msg (str_exn e)), [LogUnexpectedError e]))"

definition call_ollama_api ::
  "config \<Rightarrow> (request \<Rightarrow> post_outcome) \<Rightarrow> string \<Rightarrow> (exn + string) \<times> log_entry list" where
  \<comment> \<open>lines 44 to 89; \<open>Inl\<close> is an exception that reaches the caller\<close>
  "call_ollama_api cfg post prompt =
     (case try_body cfg post prompt of
        (Inr s, lv, lg) \<Rightarrow> (Inr s, lg)
      | (Inl e, lv, lg) \<Rightarrow> (fst (except_clauses cfg lv e), lg @ snd (except_clauses cfg lv e)))"

text \<open>
  Step 4 of the specification in its own words: the value of \<open>content\<close> inside a
  \<open>message\<close> object, else the value of a top-level \<open>response\<close>, trimmed, else the
  fixed message. \<open>None\<close> where the selected value is not a string, so that the
  specification names no result.
\<close>

fun field :: "json \<Rightarrow> string \<Rightarrow> json option" where
  "field (JObject kvs) k = map_of kvs k"
| "field _ k = None"

fun trimmed :: "json \<Rightarrow> string option" where
  "trimmed (JString s) = Some (strip s)"
| "trimmed _ = None"

fun is_object :: "json \<Rightarrow> bool" where
  "is_object (JObject _) = True"
| "is_object _ = False"

definition spec_normalize :: "json \<Rightarrow> string option" where
  "spec_normalize d =
     (case Option.bind (field d ''message'') (\<lambda>m. field m ''content'') of
        Some v \<Rightarrow> trimmed v
      | None \<Rightarrow>
          (case field d ''response'' of
             Some v \<Rightarrow> trimmed v
           | None \<Rightarrow> Some unexpected_format_msg))"

section \<open>The command \<open>ask\<close>\<close>

definition SHORT_ANSWER_PROMPT :: string where
  \<comment> \<open>line 37\<close>
  "SHORT_ANSWER_PROMPT =
     ''Give me a short answer but don't mention that I've asked you to make it short.''"

definition full_prompt :: "string \<Rightarrow> string \<Rightarrow> string" where
  \<comment> \<open>line 125\<close>
  "full_prompt language_instruction prompt_text =
     strip (language_instruction @ '' '' @ SHORT_ANSWER_PROMPT @ '' '' @ prompt_text)"

definition ask_ollama_reply :: "string \<Rightarrow> string" where
  \<comment> \<open>lines 132 to 137: the argument of \<open>ctx.send\<close>\<close>
  "ask_ollama_reply response_text =
     (if length response_text > 2000 then take 1997 response_text @ ''...''
      else if response_text = [] then ''The AI didn't provide a response.''
      else response_text)"

definition ask_ollama ::
  "config \<Rightarrow> (request \<Rightarrow> post_outcome) \<Rightarrow> user_languages \<Rightarrow> int \<Rightarrow> string \<Rightarrow> command_result" where
  \<comment> \<open>lines 118 to 137\<close>
  "ask_ollama cfg post ul user_id prompt_text =
     (let language_instruction = get_language ul user_id;
          fp = full_prompt language_instruction prompt_text;
          r = call_ollama_api cfg post fp
      in case fst r of
           Inl e \<Rightarrow> \<lparr>languages = ul, sent = [],
                     logged = LogPrompted prompt_text fp # snd r, raised = Some e\<rparr>
         | Inr response_text \<Rightarrow>
             \<lparr>languages = ul, sent = [ask_ollama_reply response_text],
              logged = LogPrompted prompt_text fp # snd r, raised = None\<rparr>)"

section \<open>Facts about \<open>lower\<close> and \<open>strip\<close>\<close>

lemma isspace_lower_char: "isspace (lower_char c) = isspace c"
  by (simp add: isspace_def lower_char_def Let_def)

lemma rstrip_id: "s = [] \<or> \<not> isspace (last s) \<Longrightarrow> rstrip s = s"
  by (cases s rule: rev_cases) (auto simp: rstrip_def)

lemma lstrip_id: "s = [] \<or> \<not> isspace (hd s) \<Longrightarrow> lstrip s = s"
  by (cases s) (auto simp: lstrip_def)

lemma strip_id: "s = [] \<or> (\<not> isspace (hd s) \<and> \<not> isspace (last s)) \<Longrightarrow> strip s = s"
  by (auto simp: strip_def lstrip_id rstrip_id)

lemma hd_lower: "s \<noteq> [] \<Longrightarrow> hd (lower s) = lower_char (hd s)"
  by (simp add: lower_def hd_map)

lemma last_lower: "s \<noteq> [] \<Longrightarrow> last (lower s) = lower_char (last s)"
  by (simp add: lower_def last_map)

lemma reset_keyword_ends:
  "k \<in> set reset_keywords \<Longrightarrow> k = [] \<or> (\<not> isspace (hd k) \<and> \<not> isspace (last k))"
  by (auto simp: reset_keywords_def isspace_def)

text \<open>
  A name that \<open>set_language\<close> takes for a reset keyword has no surrounding whitespace,
  since no keyword has any: trimming it first changes nothing.
\<close>

lemma reset_keyword_untrimmed:
  assumes "lower s \<in> set reset_keywords"
  shows "strip s = s"
proof (cases "s = []")
  case True
  then show ?thesis by (simp add: strip_id)
next
  case False
  then have "lower s \<noteq> []" by (simp add: lower_def)
  with reset_keyword_ends [OF assms]
  have "\<not> isspace (hd (lower s)) \<and> \<not> isspace (last (lower s))" by simp
  with False have "\<not> isspace (hd s) \<and> \<not> isspace (last s)"
    by (simp add: hd_lower last_lower isspace_lower_char)
  then show ?thesis by (simp add: strip_id)
qed

text \<open>Stripping never reaches into a block that starts and ends with a visible character.\<close>

lemma dropWhile_keeps:
  "\<not> P x \<Longrightarrow> \<exists>p. dropWhile P (a @ x # r) = p @ x # r"
  by (induction a) auto

lemma lstrip_keeps:
  assumes "d \<noteq> []" "\<not> isspace (hd d)"
  shows "\<exists>p. lstrip (a @ d @ b) = p @ d @ b"
proof -
  from assms obtain x r where d: "d = x # r" and x: "\<not> isspace x" by (cases d) auto
  from x dropWhile_keeps [of isspace x a "r @ b"] show ?thesis by (simp add: lstrip_def d)
qed

lemma rstrip_keeps:
  assumes "d \<noteq> []" "\<not> isspace (last d)"
  shows "\<exists>q. rstrip (p @ d @ b) = p @ d @ q"
proof -
  from assms obtain x r where d: "d = r @ [x]" and x: "\<not> isspace x"
    by (cases d rule: rev_cases) auto
  from x dropWhile_keeps [of isspace x "rev b" "rev r @ rev p"]
  obtain q where "dropWhile isspace (rev b @ x # rev r @ rev p) = q @ x # rev r @ rev p" by blast
  then have "rstrip (p @ d @ b) = p @ d @ rev q" by (simp add: rstrip_def d)
  then show ?thesis by blast
qed

lemma strip_keeps:
  assumes "d \<noteq> []" "\<not> isspace (hd d)" "\<not> isspace (last d)"
  shows "\<exists>p q. strip (a @ d @ b) = p @ d @ q"
proof -
  from lstrip_keeps [OF assms(1,2)] obtain p where "lstrip (a @ d @ b) = p @ d @ b" by blast
  moreover from rstrip_keeps [OF assms(1,3)] obtain q where "rstrip (p @ d @ b) = p @ d @ q" by blast
  ultimately show ?thesis by (auto simp: strip_def)
qed

lemma SHORT_ANSWER_PROMPT_ends:
  "SHORT_ANSWER_PROMPT \<noteq> [] \<and> \<not> isspace (hd SHORT_ANSWER_PROMPT) \<and>
   \<not> isspace (last SHORT_ANSWER_PROMPT)"
  by (simp add: SHORT_ANSWER_PROMPT_def isspace_def)

section \<open>The preference store\<close>

text \<open>The argument the handler receives has no surrounding whitespace left.\<close>

lemma rstrip_prefix: "\<exists>w. t = rstrip t @ w"
proof -
  have "rstrip t @ rev (takeWhile isspace (rev t))
          = rev (takeWhile isspace (rev t) @ dropWhile isspace (rev t))"
    unfolding rstrip_def by (simp only: rev_append)
  also have "\<dots> = t" by simp
  finally have "t = rstrip t @ rev (takeWhile isspace (rev t))" by simp
  then show ?thesis by blast
qed

lemma strip_strip: "strip (strip s) = strip s"
proof (cases "strip s = []")
  case True
  then show ?thesis by (simp add: strip_id)
next
  case False
  let ?t = "lstrip s"
  from False have u: "rstrip ?t \<noteq> []" by (simp add: strip_def)
  from rstrip_prefix [of ?t] obtain w where w: "?t = rstrip ?t @ w" by blast
  with u have t: "?t \<noteq> []" by auto
  from w u have "hd (rstrip ?t) = hd ?t" by (metis hd_append2)
  moreover from t have "\<not> isspace (hd ?t)" unfolding lstrip_def by (rule hd_dropWhile)
  moreover from u have "\<not> isspace (last (rstrip ?t))"
    unfolding rstrip_def by (simp add: last_rev hd_dropWhile)
  ultimately show ?thesis by (simp add: strip_def [of s] strip_id)
qed

lemma consume_rest_stripped: "consume_rest rest = Some a \<Longrightarrow> strip a = a \<and> a \<noteq> []"
  by (auto simp: consume_rest_def strip_strip split: if_splits)




text \<open>
  Called by hand with a name that still has its surrounding whitespace, which the
  command parser never passes, \<open>set_language\<close> stores an instruction.
\<close>

lemma set_language_called_untrimmed:
  "get_language (languages (set_language Map.empty 7 '' Default '')) 7
     = ''Answer me in  Default .''"
proof -
  have "lower '' Default '' \<notin> set reset_keywords" by code_simp
  then show ?thesis by (simp add: set_language_def get_language_def)
qed

text \<open>
  Claim C7. For every user and every name that is not a reset keyword, whether the
  comparison is the specification's (trimmed and lower-cased) or the code's (lower-cased),
  \<open>set\<close> followed by \<open>get\<close> for that user returns exactly
  \<open>"Answer me in {language_name}."\<close>. The empty name is a reset keyword, so the name is
  not empty. A user for whom nothing was ever set gets the empty string.
\<close>

theorem set_language_then_get:
  "(lower (strip language_name) \<notin> set reset_keywords \<or>
    lower language_name \<notin> set reset_keywords \<longrightarrow>
      get_language (languages (set_language ul user_id language_name)) user_id
        = ''Answer me in '' @ language_name @ ''.'') \<and>
   get_language user_languages_init user_id = []"
proof -
  have "lower language_name \<notin> set reset_keywords"
    if "lower (strip language_name) \<notin> set reset_keywords \<or>
        lower language_name \<notin> set reset_keywords"
    using that reset_keyword_untrimmed [of language_name] by auto
  then show ?thesis
    by (auto simp: set_language_def get_language_def user_languages_init_def)
qed

theorem set_language_then_get_witness:
  "lower (strip ''french'') \<notin> set reset_keywords \<and>
   get_language (languages (set_language Map.empty 7 ''french'')) 7 = ''Answer me in french.'' \<and>
   get_language user_languages_init 7 = []"
proof -
  have h: "lower (strip ''french'') \<notin> set reset_keywords" by code_simp
  show ?thesis using h set_language_then_get [of "''french''" Map.empty 7] by simp
qed

text \<open>
  Claim C10. The preference store is framed per key. For distinct users \<open>a\<close> and \<open>b\<close>,
  \<open>set_language\<close> for \<open>a\<close>, whether it stores or resets, leaves the entry of \<open>b\<close> and
  what \<open>get\<close> returns for \<open>b\<close> as they were. The \<open>get\<close> of the command \<open>ask\<close> leaves
  the whole dict as it was.
\<close>

theorem preference_frame:
  "(a \<noteq> b \<longrightarrow>
      languages (set_language ul a language_name) b = ul b \<and>
      get_language (languages (set_language ul a language_name)) b = get_language ul b) \<and>
   languages (ask_ollama cfg post ul a prompt_text) = ul"
  by (auto simp: set_language_def get_language_def ask_ollama_def Let_def split: sum.splits)

theorem preference_frame_witness:
  "(1::int) \<noteq> 2 \<and>
   languages (set_language [2 \<mapsto> ''Answer me in French.''] 1 ''reset'') 2
     = Some ''Answer me in French.'' \<and>
   get_language (languages (set_language [2 \<mapsto> ''Answer me in French.''] 1 ''reset'')) 2
     = ''Answer me in French.''"
  using preference_frame [of 1 2 "[2 \<mapsto> ''Answer me in French.'']" "''reset''"]
  by (simp add: get_language_def)

section \<open>The command \<open>ask\<close>: prompt and reply\<close>

text \<open>
  Claim C8. For every language instruction and every prompt text, the prompt sent is
  the trimmed concatenation of the instruction, a space, the short-answer directive, a
  space and the prompt text. It always contains the directive as a substring, whatever
  the instruction and the prompt text are, and so it is never empty.
\<close>

theorem full_prompt_contains_directive:
  "full_prompt language_instruction prompt_text
     = strip (language_instruction @ '' '' @ SHORT_ANSWER_PROMPT @ '' '' @ prompt_text) \<and>
   sublist SHORT_ANSWER_PROMPT (full_prompt language_instruction prompt_text) \<and>
   full_prompt language_instruction prompt_text \<noteq> []"
proof -
  from SHORT_ANSWER_PROMPT_ends
    strip_keeps [of SHORT_ANSWER_PROMPT "language_instruction @ '' ''" "'' '' @ prompt_text"]
  obtain p q where pq: "full_prompt language_instruction prompt_text = p @ SHORT_ANSWER_PROMPT @ q"
    by (auto simp: full_prompt_def)
  have "sublist SHORT_ANSWER_PROMPT (p @ SHORT_ANSWER_PROMPT @ q)" by (rule sublist_appendI)
  moreover have "p @ SHORT_ANSWER_PROMPT @ q \<noteq> []" using SHORT_ANSWER_PROMPT_ends by simp
  ultimately show ?thesis using pq by (simp add: full_prompt_def)
qed

text \<open>
  The command sends one message, made by \<open>ask_ollama_reply\<close> from the string the
  relay returned for the composed prompt, and raises nothing.
\<close>

lemma ask_ollama_sends_reply:
  assumes "fst (call_ollama_api cfg post (full_prompt (get_language ul user_id) prompt_text)) = Inr s"
  shows "sent (ask_ollama cfg post ul user_id prompt_text) = [ask_ollama_reply s] \<and>
         raised (ask_ollama cfg post ul user_id prompt_text) = None"
  using assms by (simp add: ask_ollama_def Let_def)

text \<open>
  Claim C4. The message sent is a function of the relay's string \<open>s\<close> in three cases.
  Longer than 2000 characters: the first 1997 characters of \<open>s\<close> followed by three dots,
  2000 characters in all. Empty: the fixed text that no response was provided.
  Otherwise: \<open>s\<close> itself.
\<close>

theorem ask_ollama_reply_cases:
  "(length s > 2000 \<longrightarrow>
      ask_ollama_reply s = take 1997 s @ ''...'' \<and> length (ask_ollama_reply s) = 2000) \<and>
   (\<not> length s > 2000 \<and> s = [] \<longrightarrow> ask_ollama_reply s = ''The AI didn't provide a response.'') \<and>
   (\<not> length s > 2000 \<and> s \<noteq> [] \<longrightarrow> ask_ollama_reply s = s)"
  by (simp add: ask_ollama_reply_def)

theorem ask_ollama_reply_cases_witness:
  "length (replicate 2500 CHR ''a'') > 2000 \<and>
   ask_ollama_reply (replicate 2500 CHR ''a'') = replicate 1997 CHR ''a'' @ ''...'' \<and>
   length (ask_ollama_reply (replicate 2500 CHR ''a'')) = 2000 \<and>
   ask_ollama_reply [] = ''The AI didn't provide a response.'' \<and>
   ask_ollama_reply ''Paris.'' = ''Paris.''"
  using ask_ollama_reply_cases [of "replicate 2500 CHR ''a''"]
    ask_ollama_reply_cases [of "[]"] ask_ollama_reply_cases [of "''Paris.''"]
  by simp

section \<open>The relay: reading the decoded body\<close>

text \<open>
  Lines 66 to 73 raise nothing but a \<open>TypeError\<close> (a membership test or a subscript on
  a value of the wrong type) or an \<open>AttributeError\<close> (\<open>strip\<close> on a value that is not
  a string). When they raise nothing, their result is the one step 4 of the
  specification names.
\<close>

lemma py_contains_raises: "py_contains k d = Inl e \<Longrightarrow> \<exists>m. e = TypeError m"
  by (cases d) auto

lemma py_strip_raises: "py_strip v = Inl e \<Longrightarrow> \<exists>m. e = AttributeError m"
  by (cases v) auto

lemma py_getitem_after_contains:
  "py_contains k d = Inr True \<Longrightarrow> py_getitem d k = Inl e \<Longrightarrow> \<exists>m. e = TypeError m"
  by (cases d) (auto split: option.splits)

lemma has_message_content_raises:
  "has_message_content d = Inl e \<Longrightarrow> \<exists>m. e = TypeError m"
  unfolding has_message_content_def bind_def
  by (auto split: sum.splits if_splits dest: py_contains_raises py_getitem_after_contains)

lemma has_message_content_True:
  "has_message_content d = Inr True \<Longrightarrow>
     py_contains ''message'' d = Inr True \<and>
     (\<exists>m. py_getitem d ''message'' = Inr m \<and> py_contains ''content'' m = Inr True)"
  unfolding has_message_content_def bind_def
  by (auto split: sum.splits if_splits)

lemma extract_content_raises:
  assumes "fst (extract_content d) = Inl e"
  shows "(\<exists>m. e = TypeError m) \<or> (\<exists>m. e = AttributeError m)"
proof (cases "has_message_content d")
  case (Inl e')
  with assms has_message_content_raises [OF Inl] show ?thesis
    by (simp add: extract_content_def)
next
  case (Inr b)
  show ?thesis
  proof (cases b)
    case True
    with Inr has_message_content_True [of d]
    obtain m where m: "py_getitem d ''message'' = Inr m" "py_contains ''content'' m = Inr True"
      by auto
    with assms Inr True show ?thesis
      by (auto simp: extract_content_def bind_def split: sum.splits
               dest: py_getitem_after_contains py_strip_raises)
  next
    case False
    with assms Inr show ?thesis
      by (auto simp: extract_content_def bind_def split: sum.splits bool.splits
               dest: py_contains_raises py_getitem_after_contains py_strip_raises)
  qed
qed


lemma py_contains_False_field: "py_contains k d = Inr False \<Longrightarrow> field d k = None"
  by (cases d) auto

lemma py_getitem_field: "py_getitem d k = Inr v \<Longrightarrow> field d k = Some v"
  by (cases d) (auto split: option.splits)

lemma py_strip_trimmed: "py_strip v = Inr s \<Longrightarrow> trimmed v = Some s"
  by (cases v) auto

lemma has_message_content_False:
  "has_message_content d = Inr False \<Longrightarrow>
     Option.bind (field d ''message'') (\<lambda>m. field m ''content'') = None"
  unfolding has_message_content_def bind_def
  by (auto split: sum.splits if_splits dest!: py_contains_False_field py_getitem_field)

lemma extract_content_follows_spec:
  assumes "fst (extract_content d) = Inr s"
  shows "spec_normalize d = Some s"
proof (cases "has_message_content d")
  case (Inl e)
  with assms show ?thesis by (simp add: extract_content_def)
next
  case (Inr b)
  show ?thesis
  proof (cases b)
    case True
    with assms Inr obtain m v where
      "py_getitem d ''message'' = Inr m" "py_getitem m ''content'' = Inr v" "py_strip v = Inr s"
      by (auto simp: extract_content_def bind_def split: sum.splits)
    then show ?thesis
      by (auto simp: spec_normalize_def dest!: py_getitem_field py_strip_trimmed)
  next
    case False
    with Inr have none: "Option.bind (field d ''message'') (\<lambda>m. field m ''content'') = None"
      by (simp add: has_message_content_False)
    from assms Inr False show ?thesis
      by (auto simp: extract_content_def spec_normalize_def none bind_def
               split: sum.splits bool.splits
               dest!: py_contains_False_field py_getitem_field py_strip_trimmed)
  qed
qed

lemma trimmed_py_strip: "trimmed v = Some s \<Longrightarrow> py_strip v = Inr s"
  by (cases v) auto

lemma extract_content_typed:
  assumes "is_object d"
    and "\<And>m. field d ''message'' = Some m \<Longrightarrow> is_object m"
    and "spec_normalize d = Some s"
  shows "fst (extract_content d) = Inr s"
proof -
  from assms(1) obtain kvs where d: "d = JObject kvs" by (cases d) auto
  show ?thesis
  proof (cases "map_of kvs ''message''")
    case None
    with assms(3) show ?thesis
      by (auto simp: d extract_content_def has_message_content_def bind_def spec_normalize_def
               split: option.splits dest: trimmed_py_strip)
  next
    case (Some m)
    with assms(2) d obtain mk where m: "m = JObject mk" by (cases m) auto
    with Some assms(3) show ?thesis
      by (auto simp: d extract_content_def has_message_content_def bind_def spec_normalize_def
               split: option.splits dest: trimmed_py_strip)
  qed
qed

lemma messages_distinct:
  "timeout_msg \<noteq> could_not_connect_msg u x"
  "incomplete_format_msg \<noteq> timeout_msg"
  "incomplete_format_msg \<noteq> could_not_connect_msg u x"
  "incomplete_format_msg \<noteq> invalid_response_msg"
  "incomplete_format_msg \<noteq> unexpected_error_msg x"
  "invalid_response_msg \<noteq> could_not_connect_msg u x"
  by (simp_all add: timeout_msg_def could_not_connect_msg_def incomplete_format_msg_def
        invalid_response_msg_def unexpected_error_msg_def)

lemma call_ollama_api_decoded:
  assumes "post (ollama_request cfg prompt) = PostReturns r"
    and "\<not> (400 \<le> status_code r \<and> status_code r < 600)"
    and "json_result r = Inr d"
  shows "try_body cfg post prompt
           = (fst (extract_content d), \<lparr>response = Some r, response_data = Some d\<rparr>,
              snd (extract_content d))"
  using assms by (simp add: try_body_def raise_for_status_def)

lemma call_ollama_api_decoded_ok:
  assumes "post (ollama_request cfg prompt) = PostReturns r"
    and "\<not> (400 \<le> status_code r \<and> status_code r < 600)"
    and "json_result r = Inr d"
    and "fst (extract_content d) = Inr s"
  shows "call_ollama_api cfg post prompt = (Inr s, snd (extract_content d))"
  using assms by (simp add: call_ollama_api_def call_ollama_api_decoded)

lemma call_ollama_api_decoded_raises:
  assumes "post (ollama_request cfg prompt) = PostReturns r"
    and "\<not> (400 \<le> status_code r \<and> status_code r < 600)"
    and "json_result r = Inr d"
    and "fst (extract_content d) = Inl e"
  shows "fst (call_ollama_api cfg post prompt) = Inr (unexpected_error_msg (str_exn e))"
  using assms extract_content_raises [OF assms(4)]
  by (auto simp: call_ollama_api_def call_ollama_api_decoded except_clauses_def)


text \<open>
  Claim C3, as the code has it. For every decoded body that is a JSON object, whose
  \<open>message\<close> member, when there is one, is an object too, and in which the field selected
  by the precedence holds a string, the relay returns: the trimmed \<open>content\<close> of the
  \<open>message\<close> object when it has one; else the trimmed top-level \<open>response\<close> when there is
  one; else the fixed message of an unexpected response format.
\<close>

theorem normalize_precedence_typed:
  assumes "post (ollama_request cfg prompt) = PostReturns r"
    and "\<not> (400 \<le> status_code r \<and> status_code r < 600)"
    and "json_result r = Inr d"
    and "is_object d"
    and "\<forall>m. field d ''message'' = Some m \<longrightarrow> is_object m"
    and "spec_normalize d = Some s"
  shows "fst (call_ollama_api cfg post prompt) = Inr s"
proof -
  from assms(4-6) have "fst (extract_content d) = Inr s" by (simp add: extract_content_typed)
  with assms(1-3) show ?thesis by (simp add: call_ollama_api_decoded_ok)
qed

theorem normalize_precedence_typed_witness:
  "spec_normalize (JObject [(''message'', JObject [(''content'', JString '' X '')]),
                           (''response'', JString ''Y'')]) = Some ''X'' \<and>
   fst (call_ollama_api \<lparr>api_url = ''http://host/api/chat'', ollama_model = ''llama3.2:3b''\<rparr>
         (always (PostReturns \<lparr>status_code = 200, body_text = [], http_error_msg = [],
            json_result = Inr (JObject [(''message'', JObject [(''content'', JString '' X '')]),
                                        (''response'', JString ''Y'')])\<rparr>))
         ''hi'') = Inr ''X''"
proof -
  let ?d = "JObject [(''message'', JObject [(''content'', JString '' X '')]),
                     (''response'', JString ''Y'')]"
  let ?r = "\<lparr>status_code = 200, body_text = [], http_error_msg = [], json_result = Inr ?d\<rparr>"
  have s: "spec_normalize ?d = Some ''X''"
    by (simp add: spec_normalize_def strip_def lstrip_def rstrip_def isspace_def)
  have m: "\<forall>m. field ?d ''message'' = Some m \<longrightarrow> is_object m" by simp
  show ?thesis
    using s normalize_precedence_typed [of "always (PostReturns ?r)" _ _ ?r ?d "''X''", OF _ _ _ _ m s]
    by simp
qed

text \<open>
  Claim C3 as stated fails on bodies that are valid JSON of another shape. The body
  \<open>{"message": null, "response": "Y"}\<close> has no \<open>message\<close> object with a \<open>content\<close>
  field and has a top-level \<open>response\<close>, so the claim gives \<open>Y\<close>; the test
  \<open>'content' in None\<close> raises a \<open>TypeError\<close>, and the relay returns the message of
  its last \<open>except\<close> clause.
\<close>

theorem normalize_null_message_counterexample:
  "spec_normalize (JObject [(''message'', JNull), (''response'', JString ''Y'')]) = Some ''Y'' \<and>
   fst (call_ollama_api \<lparr>api_url = ''http://host/api/chat'', ollama_model = ''llama3.2:3b''\<rparr>
         (always (PostReturns \<lparr>status_code = 200, body_text = [], http_error_msg = [],
            json_result = Inr (JObject [(''message'', JNull), (''response'', JString ''Y'')])\<rparr>))
         ''hi'')
     = Inr ''An unexpected error occurred while contacting the AI. Details: argument of type 'NoneType' is not iterable''"
  by (simp add: spec_normalize_def strip_def lstrip_def rstrip_def isspace_def
        call_ollama_api_def try_body_def raise_for_status_def extract_content_def
        has_message_content_def bind_def except_clauses_def unexpected_error_msg_def quoted_def)

section \<open>The relay: the \<open>except\<close> clauses\<close>

text \<open>Once both locals are bound, every \<open>except\<close> clause returns a string.\<close>

lemma except_clauses_bound:
  assumes "response lv \<noteq> None" and "response_data lv \<noteq> None"
  shows "\<exists>s. fst (except_clauses cfg lv e) = Inr s"
  using assms by (auto simp: except_clauses_def)

text \<open>
  Claim C6, as the code has it. For every body that \<open>response.json()\<close> has decoded,
  the \<open>try\<close> body raises no \<open>KeyError\<close>: each subscript of lines 66 to 70 is made
  only after the membership test for the same key, so the clause of lines 84 to 86 is
  never entered and its log record is never written. The text of that clause comes out
  of the relay only when it is the backend's own content, returned by lines 66 to 70.
\<close>

theorem key_error_branch_unreachable:
  assumes "post (ollama_request cfg prompt) = PostReturns r"
    and "json_result r = Inr d"
  shows "(\<forall>e. fst (try_body cfg post prompt) = Inl e \<longrightarrow> \<not> is_KeyError e) \<and>
         (\<forall>k j. LogMissingKey k j \<notin> set (snd (call_ollama_api cfg post prompt))) \<and>
         (fst (call_ollama_api cfg post prompt) = Inr incomplete_format_msg \<longrightarrow>
            fst (extract_content d) = Inr incomplete_format_msg)"
proof (cases "400 \<le> status_code r \<and> status_code r < 600")
  case True
  with assms have "try_body cfg post prompt
      = (Inl (HTTPError (http_error_msg r)), \<lparr>response = Some r, response_data = None\<rparr>, [])"
    by (simp add: try_body_def raise_for_status_def)
  then show ?thesis
    using messages_distinct(3) [of "api_url cfg" "http_error_msg r"]
    by (simp add: call_ollama_api_def except_clauses_def)
next
  case False
  with assms have tb: "try_body cfg post prompt
      = (fst (extract_content d), \<lparr>response = Some r, response_data = Some d\<rparr>,
         snd (extract_content d))"
    by (simp add: call_ollama_api_decoded)
  show ?thesis
  proof (cases "fst (extract_content d)")
    case (Inl e)
    from extract_content_raises [OF Inl] have cls: "\<not> is_KeyError e" "\<not> is_Timeout e"
      "\<not> is_RequestException e" "\<not> is_JSONDecodeError e" by auto
    have lg: "LogMissingKey k j \<notin> set (snd (extract_content d))" for k j
      by (auto simp: extract_content_def split: sum.splits bool.splits)
    from Inl cls lg show ?thesis
      using messages_distinct(5) [of "str_exn e"]
      by (simp add: tb call_ollama_api_def except_clauses_def)
  next
    case (Inr s)
    have lg: "LogMissingKey k j \<notin> set (snd (extract_content d))" for k j
      by (auto simp: extract_content_def split: sum.splits bool.splits)
    from Inr lg show ?thesis by (simp add: tb call_ollama_api_def)
  qed
qed


theorem key_error_branch_unreachable_witness:
  "fst (call_ollama_api \<lparr>api_url = ''http://host/api/chat'', ollama_model = ''llama3.2:3b''\<rparr>
         (always (PostReturns \<lparr>status_code = 200, body_text = [], http_error_msg = [],
            json_result = Inr (JObject [(''message'', JObject [(''role'', JString ''assistant'')])])\<rparr>))
         ''hi'') \<noteq> Inr incomplete_format_msg"
proof -
  let ?d = "JObject [(''message'', JObject [(''role'', JString ''assistant'')])]"
  let ?r = "\<lparr>status_code = 200, body_text = [], http_error_msg = [], json_result = Inr ?d\<rparr>"
  have "fst (extract_content ?d) = Inr unexpected_format_msg"
    by (simp add: extract_content_def has_message_content_def bind_def)
  moreover have "unexpected_format_msg \<noteq> incomplete_format_msg"
    by (simp add: unexpected_format_msg_def incomplete_format_msg_def)
  ultimately show ?thesis
    using key_error_branch_unreachable [of "always (PostReturns ?r)" _ _ ?r ?d]
    by auto
qed

text \<open>
  Claim C6 as stated ends with: no JSON body causes that message to be returned. That
  fails on a body whose own content is the text of the message: lines 69 and 70
  return it, trimmed, as they return any other content.
\<close>

theorem incomplete_format_text_echoed_counterexample:
  "fst (call_ollama_api \<lparr>api_url = ''http://host/api/chat'', ollama_model = ''llama3.2:3b''\<rparr>
         (always (PostReturns \<lparr>status_code = 200, body_text = [], http_error_msg = [],
            json_result = Inr (JObject [(''response'',
              JString ''Error: Received an incomplete response format from the AI.'')])\<rparr>))
         ''hi'')
     = Inr incomplete_format_msg"
  by (simp add: call_ollama_api_def try_body_def raise_for_status_def extract_content_def
        has_message_content_def bind_def strip_def lstrip_def rstrip_def isspace_def
        incomplete_format_msg_def)

text \<open>
  Claim C5. The relay raises nothing and returns a string for every outcome of the
  backend call: a timeout, a transport failure, a status from 400 to 599, a body that
  is not JSON, a decoded body of any shape, and any other exception. The two
  hypotheses name what requests does not do: \<open>requests.post\<close> raises neither a
  \<open>KeyError\<close> nor a plain \<open>json.JSONDecodeError\<close>, and \<open>response.json()\<close> raises
  no \<open>KeyError\<close>.
\<close>

theorem call_ollama_api_returns:
  assumes "\<forall>e. post (ollama_request cfg prompt) = PostRaises e \<longrightarrow>
             \<not> is_KeyError e \<and> (is_JSONDecodeError e \<longrightarrow> is_RequestException e)"
    and "\<forall>r e. post (ollama_request cfg prompt) = PostReturns r \<and> json_result r = Inl e \<longrightarrow>
             \<not> is_KeyError e"
  shows "\<exists>s. fst (call_ollama_api cfg post prompt) = Inr s"
proof (cases "post (ollama_request cfg prompt)")
  case (PostRaises e)
  with assms(1) have "\<not> is_KeyError e" "is_JSONDecodeError e \<longrightarrow> is_RequestException e" by auto
  with PostRaises show ?thesis
    by (auto simp: call_ollama_api_def try_body_def except_clauses_def)
next
  case (PostReturns r)
  show ?thesis
  proof (cases "400 \<le> status_code r \<and> status_code r < 600")
    case True
    with PostReturns show ?thesis
      by (simp add: call_ollama_api_def try_body_def raise_for_status_def except_clauses_def)
  next
    case False
    show ?thesis
    proof (cases "json_result r")
      case (Inl e)
      with assms(2) PostReturns have "\<not> is_KeyError e" by auto
      with Inl PostReturns False show ?thesis
        by (auto simp: call_ollama_api_def try_body_def raise_for_status_def except_clauses_def)
    next
      case (Inr d)
      with PostReturns False have tb: "try_body cfg post prompt
          = (fst (extract_content d), \<lparr>response = Some r, response_data = Some d\<rparr>,
             snd (extract_content d))"
        by (simp add: call_ollama_api_decoded)
      show ?thesis
        using except_clauses_bound [of "\<lparr>response = Some r, response_data = Some d\<rparr>" cfg]
        by (cases "fst (extract_content d)") (auto simp: tb call_ollama_api_def)
    qed
  qed
qed

theorem call_ollama_api_returns_witness:
  "fst (call_ollama_api \<lparr>api_url = ''http://host/api/chat'', ollama_model = ''llama3.2:3b''\<rparr>
         (always (PostReturns \<lparr>status_code = 200, body_text = ''5'', http_error_msg = [],
            json_result = Inr (JInt 5)\<rparr>)) ''hi'')
     = Inr ''An unexpected error occurred while contacting the AI. Details: argument of type 'int' is not iterable''"
proof -
  let ?post = "always (PostReturns \<lparr>status_code = 200, body_text = ''5'',
      http_error_msg = [], json_result = Inr (JInt 5)\<rparr>)"
  let ?cfg = "\<lparr>api_url = ''http://host/api/chat'', ollama_model = ''llama3.2:3b''\<rparr>"
  have h1: "\<forall>e. ?post (ollama_request ?cfg ''hi'') = PostRaises e \<longrightarrow>
             \<not> is_KeyError e \<and> (is_JSONDecodeError e \<longrightarrow> is_RequestException e)" by simp
  have h2: "\<forall>r e. ?post (ollama_request ?cfg ''hi'') = PostReturns r \<and> json_result r = Inl e \<longrightarrow>
             \<not> is_KeyError e" by auto
  from call_ollama_api_returns [of ?post ?cfg "''hi''", OF h1 h2]
  have "\<exists>s. fst (call_ollama_api ?cfg ?post ''hi'') = Inr s" .
  then show ?thesis
    by (simp add: call_ollama_api_def try_body_def raise_for_status_def extract_content_def
          has_message_content_def bind_def except_clauses_def unexpected_error_msg_def quoted_def)
qed

text \<open>
  Why the hypotheses are there: the clauses of lines 81 and 84 log a local of the
  \<open>try\<close> body. Were \<open>requests.post\<close> to raise a \<open>KeyError\<close>, which it does not,
  the clause of line 84 would read \<open>response_data\<close> before it is bound.
\<close>

lemma except_clause_reads_unbound_local:
  "fst (call_ollama_api \<lparr>api_url = ''http://host/api/chat'', ollama_model = ''llama3.2:3b''\<rparr>
         (always (PostRaises (KeyError ''proxy''))) ''hi'')
     = Inl (UnboundLocalError
         ''cannot access local variable 'response_data' where it is not associated with a value'')"
  by (simp add: call_ollama_api_def try_body_def except_clauses_def unbound_local_def quoted_def)

section \<open>The relay: transport failures and bodies that are not JSON\<close>

lemma could_not_connect_msg_parts:
  "sublist url (could_not_connect_msg url detail) \<and>
   sublist detail (could_not_connect_msg url detail)"
proof
  show "sublist url (could_not_connect_msg url detail)"
    unfolding could_not_connect_msg_def by (rule sublist_appendI)
  have "could_not_connect_msg url detail
          = (''Error: Could not connect to the AI service at '' @ url @ ''. Details: '') @ detail"
    by (simp add: could_not_connect_msg_def)
  then show "sublist detail (could_not_connect_msg url detail)"
    by (simp only: sublist_append_leftI)
qed

text \<open>
  Claim C9, as the code has it. A connection failure (\<open>ConnectionError\<close>: name
  resolution, refused connection) and a response whose status is from 400 to 599, for
  which \<open>raise_for_status\<close> raises, both return the message that the service could not
  be reached; the message contains the configured endpoint and the text of the error.
  A timeout that requests raises as \<open>requests.exceptions.Timeout\<close> (the connection,
  or the wait for the response, timed out) returns the fixed timeout message, which
  differs from the former whatever the endpoint and the detail are.
\<close>

theorem transport_failure_messages:
  "(post (ollama_request cfg prompt) = PostRaises (ConnectionError m) \<longrightarrow>
      fst (call_ollama_api cfg post prompt) = Inr (could_not_connect_msg (api_url cfg) m)) \<and>
   (post (ollama_request cfg prompt) = PostReturns r \<and>
     400 \<le> status_code r \<and> status_code r < 600 \<longrightarrow>
      fst (call_ollama_api cfg post prompt)
        = Inr (could_not_connect_msg (api_url cfg) (http_error_msg r))) \<and>
   (post (ollama_request cfg prompt) = PostRaises (Timeout m) \<longrightarrow>
      fst (call_ollama_api cfg post prompt) = Inr timeout_msg) \<and>
   sublist (api_url cfg) (could_not_connect_msg (api_url cfg) detail) \<and>
   sublist detail (could_not_connect_msg (api_url cfg) detail) \<and>
   timeout_msg \<noteq> could_not_connect_msg (api_url cfg) detail"
  using could_not_connect_msg_parts [of "api_url cfg" detail]
    messages_distinct(1) [of "api_url cfg" detail]
  by (simp add: call_ollama_api_def try_body_def raise_for_status_def except_clauses_def)

theorem transport_failure_messages_witness:
  "fst (call_ollama_api \<lparr>api_url = ''http://host/api/chat'', ollama_model = ''llama3.2:3b''\<rparr>
         (always (PostRaises (ConnectionError ''Connection refused''))) ''hi'')
     = Inr ''Error: Could not connect to the AI service at http://host/api/chat. Details: Connection refused'' \<and>
   fst (call_ollama_api \<lparr>api_url = ''http://host/api/chat'', ollama_model = ''llama3.2:3b''\<rparr>
         (always (PostReturns \<lparr>status_code = 503, body_text = [],
            http_error_msg = ''503 Server Error'', json_result = Inr JNull\<rparr>)) ''hi'')
     = Inr ''Error: Could not connect to the AI service at http://host/api/chat. Details: 503 Server Error'' \<and>
   fst (call_ollama_api \<lparr>api_url = ''http://host/api/chat'', ollama_model = ''llama3.2:3b''\<rparr>
         (always (PostRaises (Timeout ''Read timed out.''))) ''hi'')
     = Inr ''Error: The request to the AI timed out.''"
  using transport_failure_messages [of "always (PostRaises (ConnectionError ''Connection refused''))"
      "\<lparr>api_url = ''http://host/api/chat'', ollama_model = ''llama3.2:3b''\<rparr>" "''hi''"
      "''Connection refused''"]
    transport_failure_messages [of "always (PostReturns \<lparr>status_code = 503, body_text = [],
            http_error_msg = ''503 Server Error'', json_result = Inr JNull\<rparr>)"
      "\<lparr>api_url = ''http://host/api/chat'', ollama_model = ''llama3.2:3b''\<rparr>" "''hi''" _
      "\<lparr>status_code = 503, body_text = [],
            http_error_msg = ''503 Server Error'', json_result = Inr JNull\<rparr>"]
    transport_failure_messages [of "always (PostRaises (Timeout ''Read timed out.''))"
      "\<lparr>api_url = ''http://host/api/chat'', ollama_model = ''llama3.2:3b''\<rparr>" "''hi''"
      "''Read timed out.''"]
  by (simp add: could_not_connect_msg_def timeout_msg_def)

text \<open>
  Claim C9 as stated, for every status outside 200 to 299, fails on a status for which
  \<open>raise_for_status\<close> does not raise. A response with status 300 is read like a
  successful one, and the relay returns the content of its body.
\<close>

theorem status_300_counterexample:
  "\<not> (200 \<le> (300::nat) \<and> (300::nat) < 300) \<and>
   fst (call_ollama_api \<lparr>api_url = ''http://host/api/chat'', ollama_model = ''llama3.2:3b''\<rparr>
         (always (PostReturns \<lparr>status_code = 300, body_text = [],
            http_error_msg = ''300 Multiple Choices'',
            json_result = Inr (JObject [(''response'', JString ''Y'')])\<rparr>)) ''hi'')
     = Inr ''Y''"
  by (simp add: call_ollama_api_def try_body_def raise_for_status_def extract_content_def
        has_message_content_def bind_def strip_def lstrip_def rstrip_def isspace_def)

text \<open>
  A timeout while the body is read reaches the relay as a \<open>ConnectionError\<close>, so it
  is answered by the clause of line 78, like any other connection failure.
\<close>

lemma body_read_timeout_reported_as_connection_failure:
  "fst (call_ollama_api \<lparr>api_url = ''http://host/api/chat'', ollama_model = ''llama3.2:3b''\<rparr>
         (always (PostRaises (ConnectionError
            ''HTTPConnectionPool(host='host', port=80): Read timed out.''))) ''hi'')
     = Inr ''Error: Could not connect to the AI service at http://host/api/chat. Details: HTTPConnectionPool(host='host', port=80): Read timed out.''"
  by (simp add: call_ollama_api_def try_body_def except_clauses_def could_not_connect_msg_def)

text \<open>
  What the relay does with a body that is not JSON depends on the class of the
  exception \<open>response.json()\<close> raises. The plain \<open>json.JSONDecodeError\<close> reaches the
  clause of line 81, which logs at most 200 characters of the body. The class
  requests raises since 2.27 is a \<open>RequestException\<close> too, and the clause of line 78
  comes first.
\<close>

lemma call_ollama_api_plain_json_error:
  assumes "post (ollama_request cfg prompt) = PostReturns r"
    and "\<not> (400 \<le> status_code r \<and> status_code r < 600)"
    and "json_result r = Inl (JSONDecodeError m)"
  shows "call_ollama_api cfg post prompt
           = (Inr invalid_response_msg, [LogDecodeFailed (take 200 (body_text r))])"
    and "length (take 200 (body_text r)) \<le> 200"
  using assms
  by (simp_all add: call_ollama_api_def try_body_def raise_for_status_def except_clauses_def)

lemma call_ollama_api_requests_json_error:
  assumes "post (ollama_request cfg prompt) = PostReturns r"
    and "\<not> (400 \<le> status_code r \<and> status_code r < 600)"
    and "json_result r = Inl (RequestsJSONDecodeError m)"
  shows "call_ollama_api cfg post prompt
           = (Inr (could_not_connect_msg (api_url cfg) m), [LogRequestFailed m])"
  using assms
  by (auto simp: call_ollama_api_def try_body_def raise_for_status_def except_clauses_def)

text \<open>
  Claim C2, evaluated where the code departs from it. A response with status 200 whose
  body is not JSON, under requests 2.27 or later: the relay returns the message that
  the service could not be reached, not the message of an invalid response, and the log
  record is that of line 79, without the snippet of the body.
\<close>

theorem non_json_body_reported_as_connection_failure:
  "call_ollama_api \<lparr>api_url = ''http://host/api/chat'', ollama_model = ''llama3.2:3b''\<rparr>
      (always (PostReturns \<lparr>status_code = 200, body_text = ''<html>Bad Gateway</html>'',
         http_error_msg = [],
         json_result = Inl (RequestsJSONDecodeError ''Expecting value: line 1 column 1 (char 0)'')\<rparr>))
      ''hi''
     = (Inr ''Error: Could not connect to the AI service at http://host/api/chat. Details: Expecting value: line 1 column 1 (char 0)'',
        [LogRequestFailed ''Expecting value: line 1 column 1 (char 0)'']) \<and>
   invalid_response_msg
     \<noteq> ''Error: Could not connect to the AI service at http://host/api/chat. Details: Expecting value: line 1 column 1 (char 0)''"
  by (simp add: call_ollama_api_def try_body_def raise_for_status_def except_clauses_def
        could_not_connect_msg_def invalid_response_msg_def)

end
